theory Spec2Isabelle
  imports Complex_Main
begin

section \<open>The seat-lock registry (SeatLockService.ts)\<close>

text \<open>
  The registry is a DynamoDB table with one item per seat, keyed by the seat id. Times are
  milliseconds since the epoch (\<open>Date.now()\<close>), identifiers are strings. A call of the
  service is taken against one snapshot of the table; the clock reading and the value of
  \<open>uuidv4()\<close> are arguments of the functions that read them.
\<close>

record SeatLock =
  lk_seatId :: string
  lk_eventId :: string
  lk_userId :: string
  lk_lockId :: string
  lk_expiresAt :: int
  lk_createdAt :: int

record LockResult =
  lr_success :: bool
  lr_lockId :: "string option"
  lr_expiresAt :: "int option"
  lr_message :: "string option"

text \<open>
  What a rejected DynamoDB promise carries: \<open>error.code\<close> is either
  \<open>ConditionalCheckFailedException\<close> or something else (throttling, network, ...).
\<close>

datatype aws_error = ConditionalCheckFailedException | ServiceError

text \<open>The table, and whether the service is failing its requests at the moment.\<close>

record dynamo =
  items :: "string \<rightharpoonup> SeatLock"
  failing :: bool

text \<open>\<open>dynamoDB.get({ Key: { seatId } })\<close>: \<open>result.Item\<close> or a rejection.\<close>

definition dynamo_get :: "dynamo \<Rightarrow> string \<Rightarrow> aws_error + SeatLock option" where
  "dynamo_get d seatId = (if failing d then Inl ServiceError else Inr (items d seatId))"

text \<open>
  \<open>dynamoDB.put\<close> with the condition
  \<open>attribute_not_exists(seatId) OR expiresAt < :now\<close>, evaluated on the item currently
  stored under the key of the new item.
\<close>

definition dynamo_put_unless_live :: "dynamo \<Rightarrow> SeatLock \<Rightarrow> int \<Rightarrow> aws_error + dynamo" where
  "dynamo_put_unless_live d item now =
     (if failing d then Inl ServiceError
      else case items d (lk_seatId item) of
             None \<Rightarrow> Inr (d\<lparr>items := (items d)(lk_seatId item \<mapsto> item)\<rparr>)
           | Some old \<Rightarrow>
               if lk_expiresAt old < now
               then Inr (d\<lparr>items := (items d)(lk_seatId item \<mapsto> item)\<rparr>)
               else Inl ConditionalCheckFailedException)"

text \<open>
  \<open>dynamoDB.delete\<close> with the condition \<open>userId = :userId AND lockId = :lockId\<close>;
  on a missing item the condition is false.
\<close>

definition dynamo_delete_if_owner ::
    "dynamo \<Rightarrow> string \<Rightarrow> string \<Rightarrow> string \<Rightarrow> aws_error + dynamo" where
  "dynamo_delete_if_owner d seatId userId lockId =
     (if failing d then Inl ServiceError
      else case items d seatId of
             None \<Rightarrow> Inl ConditionalCheckFailedException
           | Some old \<Rightarrow>
               if lk_userId old = userId \<and> lk_lockId old = lockId
               then Inr (d\<lparr>items := (items d)(seatId := None)\<rparr>)
               else Inl ConditionalCheckFailedException)"

text \<open>
  \<open>acquireLock\<close>: \<open>lockDurationMs\<close> is the configured lease, \<open>uuid\<close> the value of
  \<open>uuidv4()\<close>, \<open>now\<close> the value of \<open>Date.now()\<close>.
\<close>

definition acquireLock ::
    "int \<Rightarrow> string \<Rightarrow> int \<Rightarrow> dynamo \<Rightarrow> string \<Rightarrow> string \<Rightarrow> string \<Rightarrow> LockResult \<times> dynamo" where
  "acquireLock lockDurationMs uuid now d seatId eventId userId =
     (let lockId = uuid;
          expiresAt = now + lockDurationMs;
          seatLock = \<lparr>lk_seatId = seatId, lk_eventId = eventId, lk_userId = userId,
                      lk_lockId = lockId, lk_expiresAt = expiresAt, lk_createdAt = now\<rparr>
      in case dynamo_put_unless_live d seatLock now of
           Inr d' \<Rightarrow>
             (\<lparr>lr_success = True, lr_lockId = Some lockId, lr_expiresAt = Some expiresAt,
               lr_message = Some ''Seat locked successfully''\<rparr>, d')
         | Inl err \<Rightarrow>
             if err = ConditionalCheckFailedException
             then (\<lparr>lr_success = False, lr_lockId = None, lr_expiresAt = None,
                    lr_message = Some ''Seat is already locked by another user''\<rparr>, d)
             else (\<lparr>lr_success = False, lr_lockId = None, lr_expiresAt = None,
                    lr_message = Some ''Failed to acquire seat lock due to system error''\<rparr>, d))"

definition releaseLock ::
    "dynamo \<Rightarrow> string \<Rightarrow> string \<Rightarrow> string \<Rightarrow> string \<Rightarrow> bool \<times> dynamo" where
  "releaseLock d seatId eventId userId lockId =
     (case dynamo_delete_if_owner d seatId userId lockId of
        Inr d' \<Rightarrow> (True, d')
      | Inl err \<Rightarrow> if err = ConditionalCheckFailedException then (False, d) else (False, d))"

definition isLocked :: "dynamo \<Rightarrow> int \<Rightarrow> string \<Rightarrow> bool" where
  "isLocked d now seatId =
     (case dynamo_get d seatId of
        Inr None \<Rightarrow> False
      | Inr (Some lock) \<Rightarrow> lk_expiresAt lock > now
      | Inl err \<Rightarrow> True)"

definition getLockInfo :: "dynamo \<Rightarrow> int \<Rightarrow> string \<Rightarrow> SeatLock option" where
  "getLockInfo d now seatId =
     (case dynamo_get d seatId of
        Inr None \<Rightarrow> None
      | Inr (Some lock) \<Rightarrow> if lk_expiresAt lock > now then Some lock else None
      | Inl err \<Rightarrow> None)"

definition validateLock :: "dynamo \<Rightarrow> int \<Rightarrow> string \<Rightarrow> string \<Rightarrow> string \<Rightarrow> bool" where
  "validateLock d now seatId userId lockId =
     (case getLockInfo d now seatId of
        None \<Rightarrow> False
      | Some lockInfo \<Rightarrow> lk_userId lockInfo = userId \<and> lk_lockId lockInfo = lockId)"

section \<open>Numbers and decimal columns\<close>

text \<open>
  The price columns are \<open>decimal(10, 2)\<close>: their values are exact decimals, held here as
  rationals, and the store hands them to the service as strings. The service computes
  with JavaScript numbers (IEEE double precision). That arithmetic is an argument of the
  model: \<open>js_Number\<close> is \<open>Number(s)\<close> on the string of a decimal, \<open>js_zero\<close> and
  \<open>js_one\<close> are the literals \<open>0\<close> and \<open>1\<close>, \<open>js_times\<close> and \<open>js_plus\<close> are \<open>*\<close>
  and \<open>+\<close>, and \<open>pg_numeric\<close> is the value a \<open>decimal(10, 2)\<close> column keeps when a
  number is written to it (\<open>None\<close> when the store rejects the value).
\<close>

record 'n js_arith =
  js_Number :: "rat \<Rightarrow> 'n"
  js_zero :: 'n
  js_one :: 'n
  js_times :: "'n \<Rightarrow> 'n \<Rightarrow> 'n"
  js_plus :: "'n \<Rightarrow> 'n \<Rightarrow> 'n"
  pg_numeric :: "'n \<Rightarrow> rat option"

section \<open>The durable store (entities/*.ts, TypeORM)\<close>

text \<open>
  The rows of the relational store with the columns the booking service reads or writes.
  Dates are milliseconds since the epoch. A booking and a booking seat carry their price
  as a number while the service builds them (\<open>'p\<close> is the number type) and as a decimal
  once they are rows of the store.
\<close>

datatype EventStatus = DRAFT | PUBLISHED | SALES_OPEN | SALES_CLOSED | COMPLETED | CANCELLED

datatype SeatStatus = AVAILABLE | BOOKED | MAINTENANCE

datatype BookingStatus = PENDING | CONFIRMED | CANCELLED | REFUNDED

record Event =
  ev_id :: string
  ev_eventDate :: int
  ev_status :: EventStatus
  ev_basePrice :: "rat option"
  ev_maxCapacity :: int
  ev_availableSeats :: int

record Seat =
  seat_id :: string
  seat_status :: SeatStatus
  seat_priceModifier :: "rat option"

record 'p Booking =
  bk_id :: string
  bk_userId :: string
  bk_eventId :: string
  bk_totalPrice :: 'p
  bk_status :: BookingStatus
  bk_paymentIntentId :: "string option"
  bk_bookingDate :: int
  bk_confirmedAt :: "int option"
  bk_cancelledAt :: "int option"
  bk_cancellationReason :: "string option"

record 'p BookingSeat =
  bs_id :: string
  bs_bookingId :: string
  bs_seatId :: string
  bs_priceAtBooking :: 'p

text \<open>
  The tables, keyed by primary key, and whether the store refuses connections at the
  moment (every store call is inside a \<open>try\<close> whose \<open>catch\<close> rolls back and answers
  \<open>SYSTEM_ERROR\<close>).
\<close>

record db =
  events :: "string \<rightharpoonup> Event"
  seats :: "string \<rightharpoonup> Seat"
  bookings :: "string \<rightharpoonup> rat Booking"
  bookingSeats :: "rat BookingSeat list"
  offline :: bool

text \<open>The getter \<open>Event.canPurchaseTickets\<close>; \<open>now\<close> is \<open>new Date()\<close>.\<close>

definition canPurchaseTickets :: "int \<Rightarrow> Event \<Rightarrow> bool" where
  "canPurchaseTickets now event =
     (ev_status event = SALES_OPEN \<and> ev_availableSeats event > 0 \<and> now < ev_eventDate event)"

text \<open>
  \<open>manager.findByIds(Seat, seatIds)\<close>: the rows whose primary key is among the ids, each
  row once however often its id is mentioned. The store returns them in an order of its
  own; here they follow the ids.
\<close>

definition findByIds_Seat :: "db \<Rightarrow> string list \<Rightarrow> Seat list" where
  "findByIds_Seat st seatIds = List.map_filter (seats st) (remdups seatIds)"

text \<open>
  \<open>manager.save(booking)\<close> and \<open>manager.save(bookingSeats)\<close>: each price is written to
  its \<open>decimal(10, 2)\<close> column; a value the column rejects fails the call.
\<close>

definition save_Booking :: "'n js_arith \<Rightarrow> db \<Rightarrow> 'n Booking \<Rightarrow> db option" where
  "save_Booking A st booking =
     (case pg_numeric A (bk_totalPrice booking) of
        None \<Rightarrow> None
      | Some written \<Rightarrow>
          Some (st\<lparr>bookings := (bookings st)(bk_id booking \<mapsto>
                  \<lparr>bk_id = bk_id booking, bk_userId = bk_userId booking,
                   bk_eventId = bk_eventId booking, bk_totalPrice = written,
                   bk_status = bk_status booking,
                   bk_paymentIntentId = bk_paymentIntentId booking,
                   bk_bookingDate = bk_bookingDate booking,
                   bk_confirmedAt = bk_confirmedAt booking,
                   bk_cancelledAt = bk_cancelledAt booking,
                   bk_cancellationReason = bk_cancellationReason booking\<rparr>)\<rparr>))"

definition written_BookingSeat :: "'n js_arith \<Rightarrow> 'n BookingSeat \<Rightarrow> rat BookingSeat option" where
  "written_BookingSeat A row =
     (case pg_numeric A (bs_priceAtBooking row) of
        None \<Rightarrow> None
      | Some price \<Rightarrow>
          Some \<lparr>bs_id = bs_id row, bs_bookingId = bs_bookingId row, bs_seatId = bs_seatId row,
                bs_priceAtBooking = price\<rparr>)"

definition save_BookingSeats :: "'n js_arith \<Rightarrow> db \<Rightarrow> 'n BookingSeat list \<Rightarrow> db option" where
  "save_BookingSeats A st rows =
     (case those (map (written_BookingSeat A) rows) of
        None \<Rightarrow> None
      | Some written \<Rightarrow> Some (st\<lparr>bookingSeats := bookingSeats st @ written\<rparr>))"

text \<open>
  The integer columns of table \<open>events\<close> under the names the store knows them by.
  \<open>Event.ts\<close> gives no column a name of its own and \<open>database.ts\<close> sets no naming
  strategy, so each column is named as its property: \<open>maxCapacity\<close>, \<open>availableSeats\<close>.
\<close>

definition Event_int_column :: "string \<Rightarrow> (Event \<Rightarrow> int) option" where
  "Event_int_column name =
     (if name = ''maxCapacity'' then Some ev_maxCapacity
      else if name = ''availableSeats'' then Some ev_availableSeats
      else None)"

text \<open>
  \<open>manager.update(Event, eventId, { availableSeats: () => `column + delta` })\<close>: one
  \<open>UPDATE\<close> by primary key that sets \<open>availableSeats\<close> to the value of the fragment,
  with no further condition. The fragment goes to the store as the service wrote it; the
  store rejects a fragment that names no integer column of the table (\<open>None\<close>). A missing
  row is no error.
\<close>

definition update_Event_availableSeats :: "db \<Rightarrow> string \<Rightarrow> string \<Rightarrow> int \<Rightarrow> db option" where
  "update_Event_availableSeats st eventId column delta =
     (case Event_int_column column of
        None \<Rightarrow> None
      | Some read \<Rightarrow>
          Some (case events st eventId of
                  None \<Rightarrow> st
                | Some event \<Rightarrow>
                    st\<lparr>events := (events st)(eventId \<mapsto>
                          event\<lparr>ev_availableSeats := read event + delta\<rparr>)\<rparr>))"

text \<open>
  \<open>manager.update(Seat, seatIds, { status })\<close>. TypeORM rejects an empty list of
  criteria (\<open>Empty criteria(s) are not allowed for the update method\<close>): that is
  \<open>None\<close>.
\<close>

definition update_Seat_status :: "db \<Rightarrow> string list \<Rightarrow> SeatStatus \<Rightarrow> db option" where
  "update_Seat_status st seatIds status =
     (if seatIds = [] then None
      else Some (st\<lparr>seats := (\<lambda>k. if k \<in> set seatIds
                                   then map_option (\<lambda>seat. seat\<lparr>seat_status := status\<rparr>) (seats st k)
                                   else seats st k)\<rparr>))"

section \<open>The booking service (BookingService.ts)\<close>

record BookingRequest =
  rq_userId :: string
  rq_eventId :: string
  rq_seatIds :: "string list"
  rq_lockIds :: "string list"
  rq_paymentIntentId :: "string option"

record BookingResult =
  br_success :: bool
  br_booking :: "rat Booking option"
  br_message :: "string option"
  br_failureReason :: "string option"

text \<open>The object \<open>{ success: false, message, failureReason }\<close>.\<close>

definition failure :: "string \<Rightarrow> string \<Rightarrow> BookingResult" where
  "failure message failureReason =
     \<lparr>br_success = False, br_booking = None, br_message = Some message,
      br_failureReason = Some failureReason\<rparr>"

text \<open>\<open>lockIds[index]\<close>: \<open>undefined\<close> beyond the end of the array.\<close>

definition at_index :: "'a list \<Rightarrow> nat \<Rightarrow> 'a option" where
  "at_index xs i = (if i < length xs then Some (xs ! i) else None)"

text \<open>
  \<open>validateSeatLocks\<close>: one \<open>validateLock\<close> per seat id with the lock id at the same
  index. With \<open>undefined\<close> for the lock id \<open>validateLock\<close> answers false, whatever the
  registry holds.
\<close>

definition validateSeatLocks ::
    "dynamo \<Rightarrow> int \<Rightarrow> string \<Rightarrow> string \<Rightarrow> string list \<Rightarrow> string list \<Rightarrow> BookingResult" where
  "validateSeatLocks d now userId eventId seatIds lockIds =
     (let validationResults =
            map (\<lambda>(index, seatId).
                   case at_index lockIds index of
                     None \<Rightarrow> False
                   | Some lockId \<Rightarrow> validateLock d now seatId userId lockId)
                (enumerate 0 seatIds);
          invalidLocks = list_ex (\<lambda>result. \<not> result) validationResults
      in if invalidLocks
         then failure ''One or more seat locks are invalid or have expired'' ''INVALID_LOCKS''
         else \<lparr>br_success = True, br_booking = None, br_message = None,
               br_failureReason = None\<rparr>)"

text \<open>
  \<open>x || d\<close> on a decimal column of a loaded row: \<open>null\<close> is falsy and gives the
  default; a value arrives as a non-empty string, which is truthy whatever decimal it
  spells (\<open>'0.00'\<close> too), and the multiplication that follows turns it into a number.
\<close>

definition or_default :: "'n js_arith \<Rightarrow> rat option \<Rightarrow> 'n \<Rightarrow> 'n" where
  "or_default A x d = (case x of None \<Rightarrow> d | Some v \<Rightarrow> js_Number A v)"

definition calculateSeatPrice :: "'n js_arith \<Rightarrow> Event \<Rightarrow> Seat \<Rightarrow> 'n" where
  "calculateSeatPrice A event seat =
     (let basePrice = or_default A (ev_basePrice event) (js_zero A);
          priceModifier = or_default A (seat_priceModifier seat) (js_one A)
      in js_times A basePrice priceModifier)"

definition calculateTotalPrice :: "'n js_arith \<Rightarrow> Event \<Rightarrow> Seat list \<Rightarrow> 'n" where
  "calculateTotalPrice A event seatList =
     foldl (\<lambda>total seat. let seatPrice = calculateSeatPrice A event seat
                          in js_plus A total seatPrice)
           (js_zero A) seatList"

text \<open>The releases after the commit (\<open>Promise.allSettled\<close>): results are dropped.\<close>

definition release_locks :: "dynamo \<Rightarrow> string \<Rightarrow> string \<Rightarrow> (string \<times> string) list \<Rightarrow> dynamo" where
  "release_locks d eventId userId pairs =
     fold (\<lambda>(seatId, lockId) d'. snd (releaseLock d' seatId eventId userId lockId)) pairs d"

text \<open>The answer of the \<open>catch\<close> branch of \<open>createBooking\<close>.\<close>

definition create_system_error :: BookingResult where
  "create_system_error = failure ''Failed to create booking due to system error'' ''SYSTEM_ERROR''"

text \<open>
  \<open>createBooking\<close>. \<open>A\<close> is the arithmetic of numbers, \<open>uuidv4\<close> the supply of fresh
  identifiers (call number \<open>0\<close> names the booking, call \<open>i + 1\<close> the \<open>i\<close>-th booking
  seat), \<open>now\<close> the clock. The result is the answer, the registry and the store
  afterwards; a rollback gives the store back as it was. The inventory update is written
  in the source with the fragment \<open>available_seats - N\<close>.
\<close>

definition createBooking ::
    "'n js_arith \<Rightarrow> (nat \<Rightarrow> string) \<Rightarrow> int \<Rightarrow> dynamo \<Rightarrow> db \<Rightarrow> BookingRequest
       \<Rightarrow> BookingResult \<times> dynamo \<times> db" where
  "createBooking A uuidv4 now d st request =
     (let userId = rq_userId request;
          eventId = rq_eventId request;
          seatIds = rq_seatIds request;
          lockIds = rq_lockIds request;
          paymentIntentId = rq_paymentIntentId request
      in
      if length seatIds \<noteq> length lockIds then
        (failure ''Mismatch between seat IDs and lock IDs'' ''INVALID_REQUEST'', d, st)
      else if offline st then (create_system_error, d, st)
      else
        let validationResult = validateSeatLocks d now userId eventId seatIds lockIds in
        if \<not> br_success validationResult then (validationResult, d, st)
        else
          case events st eventId of
            None \<Rightarrow> (failure ''Event not found'' ''EVENT_NOT_FOUND'', d, st)
          | Some event \<Rightarrow>
              if \<not> canPurchaseTickets now event then
                (failure ''Tickets are not available for purchase'' ''SALES_CLOSED'', d, st)
              else
                let seatRows = findByIds_Seat st seatIds in
                if length seatRows \<noteq> length seatIds then
                  (failure ''Some seats not found'' ''SEATS_NOT_FOUND'', d, st)
                else
                  let totalPrice = calculateTotalPrice A event seatRows;
                      booking = \<lparr>bk_id = uuidv4 0, bk_userId = userId, bk_eventId = eventId,
                                 bk_totalPrice = totalPrice, bk_status = PENDING,
                                 bk_paymentIntentId = paymentIntentId, bk_bookingDate = now,
                                 bk_confirmedAt = None, bk_cancelledAt = None,
                                 bk_cancellationReason = None\<rparr>;
                      rows = map (\<lambda>(i, seat).
                                    \<lparr>bs_id = uuidv4 (Suc i), bs_bookingId = bk_id booking,
                                     bs_seatId = seat_id seat,
                                     bs_priceAtBooking = calculateSeatPrice A event seat\<rparr>)
                                 (enumerate 0 seatRows)
                  in (case save_Booking A st booking of
                        None \<Rightarrow> (create_system_error, d, st)
                      | Some st1 \<Rightarrow>
                     (case save_BookingSeats A st1 rows of
                        None \<Rightarrow> (create_system_error, d, st)
                      | Some st2 \<Rightarrow>
                     (case update_Event_availableSeats st2 eventId ''available_seats''
                             (- int (length seatIds)) of
                        None \<Rightarrow> (create_system_error, d, st)
                      | Some st3 \<Rightarrow>
                     (case update_Seat_status st3 seatIds BOOKED of
                        None \<Rightarrow> (create_system_error, d, st)
                      | Some st4 \<Rightarrow>
                          let d' = release_locks d eventId userId (zip seatIds lockIds);
                              fullBooking = bookings st4 (bk_id booking)
                          in (\<lparr>br_success = True, br_booking = fullBooking,
                               br_message = Some ''Booking created successfully'',
                               br_failureReason = None\<rparr>, d', st4))))))"



section \<open>The total price as the specification words it\<close>

text \<open>
  For comparison with \<open>calculateTotalPrice\<close>: fixed-point arithmetic on exact decimals,
  rounding to two decimal places with ties to the even neighbour, applied to the sum of
  base price times price modifier (a missing modifier counting as \<open>1\<close>).
\<close>

definition spec_bankers_round2 :: "rat \<Rightarrow> rat" where
  "spec_bankers_round2 q =
     (let scaled = q * 100;
          lower = \<lfloor>scaled\<rfloor>;
          rest = scaled - of_int lower
      in if rest < 1 / 2 then of_int lower / 100
         else if rest > 1 / 2 then of_int (lower + 1) / 100
         else if even lower then of_int lower / 100
         else of_int (lower + 1) / 100)"

definition spec_total_price :: "Event \<Rightarrow> Seat list \<Rightarrow> rat" where
  "spec_total_price event seatList =
     spec_bankers_round2
       (\<Sum>seat\<leftarrow>seatList.
           (case ev_basePrice event of None \<Rightarrow> 0 | Some b \<Rightarrow> b)
         * (case seat_priceModifier seat of None \<Rightarrow> 1 | Some m \<Rightarrow> m))"

section \<open>Sample data\<close>

text \<open>
  An arithmetic to run the service with: numbers are rationals and every operation is
  exact. Double precision agrees with it wherever the operands and the result are
  doubles, as for \<open>0.25 * 0.5 = 0.125\<close> and \<open>0 + 0.125 = 0.125\<close>. The column keeps a
  number rounded to two places, ties away from zero, and rejects one of more than eight
  integer digits.
\<close>

definition numeric_10_2 :: "rat \<Rightarrow> rat option" where
  "numeric_10_2 q =
     (let rounded = sgn q * of_int \<lfloor>\<bar>q\<bar> * 100 + 1 / 2\<rfloor> / 100
      in if \<bar>rounded\<bar> < 100000000 then Some rounded else None)"

definition exact_arith :: "rat js_arith" where
  "exact_arith = \<lparr>js_Number = (\<lambda>q. q), js_zero = 0, js_one = 1, js_times = (\<lambda>a b. a * b),
                  js_plus = (\<lambda>a b. a + b), pg_numeric = numeric_10_2\<rparr>"

text \<open>
  One event \<open>E1\<close> with capacity ten, two seats \<open>S1\<close> and \<open>S2\<close> of its venue, user \<open>U1\<close>
  holding locks \<open>L1\<close> and \<open>L2\<close> on them until \<open>t = 301000\<close>.
\<close>

definition uuids :: "nat \<Rightarrow> string" where
  "uuids n = (if n = 0 then ''B1'' else if n = 1 then ''BS1'' else ''BS2'')"

definition lock_S1 :: SeatLock where
  "lock_S1 = \<lparr>lk_seatId = ''S1'', lk_eventId = ''E1'', lk_userId = ''U1'', lk_lockId = ''L1'',
               lk_expiresAt = 301000, lk_createdAt = 1000\<rparr>"

definition lock_S2 :: SeatLock where
  "lock_S2 = \<lparr>lk_seatId = ''S2'', lk_eventId = ''E1'', lk_userId = ''U1'', lk_lockId = ''L2'',
               lk_expiresAt = 301000, lk_createdAt = 1000\<rparr>"

definition registry_U1 :: dynamo where
  "registry_U1 = \<lparr>items = [''S1'' \<mapsto> lock_S1, ''S2'' \<mapsto> lock_S2], failing = False\<rparr>"

definition registry_down :: dynamo where
  "registry_down = \<lparr>items = Map.empty, failing = True\<rparr>"

definition event_E1 :: Event where
  "event_E1 = \<lparr>ev_id = ''E1'', ev_eventDate = 9000000, ev_status = SALES_OPEN,
               ev_basePrice = Some 50, ev_maxCapacity = 10, ev_availableSeats = 1\<rparr>"

definition seat_S1 :: Seat where
  "seat_S1 = \<lparr>seat_id = ''S1'', seat_status = AVAILABLE, seat_priceModifier = Some 1\<rparr>"

definition seat_S2 :: Seat where
  "seat_S2 = \<lparr>seat_id = ''S2'', seat_status = AVAILABLE, seat_priceModifier = Some (3 / 2)\<rparr>"

text \<open>One seat left for sale, both seats free, no booking yet.\<close>

definition store_E1 :: db where
  "store_E1 =
     \<lparr>events = [''E1'' \<mapsto> event_E1],
      seats = [''S1'' \<mapsto> seat_S1, ''S2'' \<mapsto> seat_S2],
      bookings = Map.empty, bookingSeats = [], offline = False\<rparr>"

text \<open>
  Seat \<open>S1\<close> held by user \<open>U0\<close> through booking \<open>B0\<close>, with the given number of seats
  left for sale and the given status of the booking.
\<close>

definition booking_B0 :: "rat Booking" where
  "booking_B0 = \<lparr>bk_id = ''B0'', bk_userId = ''U0'', bk_eventId = ''E1'', bk_totalPrice = 50,
                 bk_status = CONFIRMED, bk_paymentIntentId = Some ''pi_0'',
                 bk_bookingDate = 1500, bk_confirmedAt = Some 1600, bk_cancelledAt = None,
                 bk_cancellationReason = None\<rparr>"

definition store_B0 :: "int \<Rightarrow> BookingStatus \<Rightarrow> db" where
  "store_B0 available status =
     \<lparr>events = [''E1'' \<mapsto> event_E1\<lparr>ev_availableSeats := available\<rparr>],
      seats = [''S1'' \<mapsto> seat_S1\<lparr>seat_status := BOOKED\<rparr>, ''S2'' \<mapsto> seat_S2],
      bookings = [''B0'' \<mapsto> booking_B0\<lparr>bk_status := status\<rparr>],
      bookingSeats = [\<lparr>bs_id = ''BS0'', bs_bookingId = ''B0'', bs_seatId = ''S1'',
                       bs_priceAtBooking = 50\<rparr>],
      offline = False\<rparr>"

definition request_S1 :: BookingRequest where
  "request_S1 = \<lparr>rq_userId = ''U1'', rq_eventId = ''E1'', rq_seatIds = [''S1''],
                 rq_lockIds = [''L1''], rq_paymentIntentId = Some ''pi_1''\<rparr>"

definition request_S1_S2 :: BookingRequest where
  "request_S1_S2 = \<lparr>rq_userId = ''U1'', rq_eventId = ''E1'', rq_seatIds = [''S1'', ''S2''],
                    rq_lockIds = [''L1'', ''L2''], rq_paymentIntentId = Some ''pi_1''\<rparr>"

definition request_S1_twice :: BookingRequest where
  "request_S1_twice = \<lparr>rq_userId = ''U1'', rq_eventId = ''E1'', rq_seatIds = [''S1'', ''S1''],
                       rq_lockIds = [''L1'', ''L1''], rq_paymentIntentId = None\<rparr>"

definition request_no_seats :: BookingRequest where
  "request_no_seats = \<lparr>rq_userId = ''U1'', rq_eventId = ''E9'', rq_seatIds = [],
                       rq_lockIds = [], rq_paymentIntentId = None\<rparr>"

definition request_one_lock_short :: BookingRequest where
  "request_one_lock_short = \<lparr>rq_userId = ''U1'', rq_eventId = ''E1'', rq_seatIds = [''S1'', ''S2''],
                             rq_lockIds = [''L1''], rq_paymentIntentId = None\<rparr>"

definition event_quarter :: Event where
  "event_quarter = \<lparr>ev_id = ''E2'', ev_eventDate = 9000000, ev_status = SALES_OPEN,
                    ev_basePrice = Some (1 / 4), ev_maxCapacity = 10, ev_availableSeats = 10\<rparr>"

definition seat_half :: Seat where
  "seat_half = \<lparr>seat_id = ''S3'', seat_status = AVAILABLE, seat_priceModifier = Some (1 / 2)\<rparr>"

section \<open>Auxiliary facts\<close>

lemmas sample_defs =
  uuids_def lock_S1_def lock_S2_def registry_U1_def registry_down_def event_E1_def seat_S1_def
  seat_S2_def store_E1_def booking_B0_def store_B0_def request_S1_def request_S1_S2_def
  request_S1_twice_def request_no_seats_def request_one_lock_short_def

lemmas lock_defs =
  validateSeatLocks_def validateLock_def getLockInfo_def dynamo_get_def at_index_def
  failure_def enumerate_eq_zip Let_def



lemma validateSeatLocks_answer:
  "validateSeatLocks d now userId eventId seatIds lockIds =
     (if br_success (validateSeatLocks d now userId eventId seatIds lockIds)
      then \<lparr>br_success = True, br_booking = None, br_message = None, br_failureReason = None\<rparr>
      else failure ''One or more seat locks are invalid or have expired'' ''INVALID_LOCKS'')"
  by (simp add: validateSeatLocks_def Let_def failure_def)


lemma no_available_seats_column: "Event_int_column ''available_seats'' = None"
  by (simp add: Event_int_column_def)

text \<open>
  The store has no column \<open>available_seats\<close>, so the inventory update of both
  \<open>createBooking\<close> and \<open>cancelBooking\<close> is rejected and neither ever commits.
\<close>

lemma createBooking_unchanged:
  "snd (createBooking A newId now d st request) = (d, st)"
  by (auto simp: createBooking_def Let_def update_Event_availableSeats_def
        no_available_seats_column split: if_splits option.splits)

lemma createBooking_answer:
  "fst (createBooking A newId now d st request) =
     (if length (rq_seatIds request) \<noteq> length (rq_lockIds request)
      then failure ''Mismatch between seat IDs and lock IDs'' ''INVALID_REQUEST''
      else if offline st then create_system_error
      else if \<not> br_success (validateSeatLocks d now (rq_userId request) (rq_eventId request)
                              (rq_seatIds request) (rq_lockIds request))
      then failure ''One or more seat locks are invalid or have expired'' ''INVALID_LOCKS''
      else case events st (rq_eventId request) of
             None \<Rightarrow> failure ''Event not found'' ''EVENT_NOT_FOUND''
           | Some event \<Rightarrow>
               if \<not> canPurchaseTickets now event
               then failure ''Tickets are not available for purchase'' ''SALES_CLOSED''
               else if length (findByIds_Seat st (rq_seatIds request)) \<noteq> length (rq_seatIds request)
               then failure ''Some seats not found'' ''SEATS_NOT_FOUND''
               else create_system_error)"
proof -
  have invalid: "validateSeatLocks d now (rq_userId request) (rq_eventId request)
                   (rq_seatIds request) (rq_lockIds request)
                 = failure ''One or more seat locks are invalid or have expired'' ''INVALID_LOCKS''"
    if "\<not> br_success (validateSeatLocks d now (rq_userId request) (rq_eventId request)
                          (rq_seatIds request) (rq_lockIds request))"
    using that validateSeatLocks_answer [of d now "rq_userId request" "rq_eventId request"
                                            "rq_seatIds request" "rq_lockIds request"]
    by simp
  show ?thesis
    by (auto simp: createBooking_def Let_def update_Event_availableSeats_def
          no_available_seats_column invalid split: if_splits option.splits)
qed





lemma calculateTotalPrice_fold:
  "calculateTotalPrice A event seatList =
     foldl (js_plus A) (js_zero A)
       (map (\<lambda>seat. js_times A
                       (case ev_basePrice event of None \<Rightarrow> js_zero A | Some b \<Rightarrow> js_Number A b)
                       (case seat_priceModifier seat of None \<Rightarrow> js_one A
                        | Some m \<Rightarrow> js_Number A m))
            seatList)"
  by (simp add: calculateTotalPrice_def calculateSeatPrice_def or_default_def Let_def foldl_map)

lemma createBooking_never_succeeds:
  "\<not> br_success (fst (createBooking A newId now d st request))"
  by (simp add: createBooking_answer failure_def create_system_error_def split: option.splits)



lemma sample_locks_S1_twice:
  "br_success (validateSeatLocks registry_U1 2000 ''U1'' ''E1'' [''S1'', ''S1''] [''L1'', ''L1''])"
  by (simp add: lock_defs sample_defs)

lemma sample_locks_none:
  "br_success (validateSeatLocks registry_U1 2000 ''U1'' ''E9'' [] [])"
  by (simp add: lock_defs sample_defs)

section \<open>The claims\<close>

subsection \<open>C1: the inventory decrement\<close>




subsection \<open>C2: bounds of the inventory\<close>



subsection \<open>C3: the seat rows of a commit\<close>




subsection \<open>C4: requests refused before the pipeline\<close>

text \<open>
  C4, as it holds: \<open>createBooking\<close> answers \<open>INVALID_REQUEST\<close> exactly when the
  numbers of seat ids and lock ids differ. A request whose seat ids and lock ids differ
  in number, whose seat list is empty or whose seat list mentions a seat twice never
  succeeds and leaves registry and store as they were. With as many lock ids as seat
  ids, the request is answered with the failure of the step that stops it:
  \<open>INVALID_LOCKS\<close>, \<open>EVENT_NOT_FOUND\<close>, \<open>SALES_CLOSED\<close>, \<open>SEATS_NOT_FOUND\<close> or
  \<open>SYSTEM_ERROR\<close>.
\<close>

theorem createBooking_invalid_request:
  "(br_failureReason (fst (createBooking A newId now d st request)) = Some ''INVALID_REQUEST''
      \<longleftrightarrow> length (rq_seatIds request) \<noteq> length (rq_lockIds request))
   \<and> (length (rq_seatIds request) \<noteq> length (rq_lockIds request)
        \<or> rq_seatIds request = [] \<or> \<not> distinct (rq_seatIds request)
      \<longrightarrow> \<not> br_success (fst (createBooking A newId now d st request))
          \<and> snd (createBooking A newId now d st request) = (d, st))
   \<and> (length (rq_seatIds request) = length (rq_lockIds request)
        \<and> \<not> br_success (fst (createBooking A newId now d st request))
      \<longrightarrow> br_failureReason (fst (createBooking A newId now d st request))
            \<in> {Some ''INVALID_LOCKS'', Some ''EVENT_NOT_FOUND'', Some ''SALES_CLOSED'',
               Some ''SEATS_NOT_FOUND'', Some ''SYSTEM_ERROR''})"
proof (intro conjI)
  show "br_failureReason (fst (createBooking A newId now d st request)) = Some ''INVALID_REQUEST''
      \<longleftrightarrow> length (rq_seatIds request) \<noteq> length (rq_lockIds request)"
    by (auto simp: createBooking_answer failure_def create_system_error_def split: option.splits)
  show "length (rq_seatIds request) \<noteq> length (rq_lockIds request)
        \<or> rq_seatIds request = [] \<or> \<not> distinct (rq_seatIds request)
      \<longrightarrow> \<not> br_success (fst (createBooking A newId now d st request))
          \<and> snd (createBooking A newId now d st request) = (d, st)"
    by (simp add: createBooking_never_succeeds createBooking_unchanged)
  show "length (rq_seatIds request) = length (rq_lockIds request)
        \<and> \<not> br_success (fst (createBooking A newId now d st request))
      \<longrightarrow> br_failureReason (fst (createBooking A newId now d st request))
            \<in> {Some ''INVALID_LOCKS'', Some ''EVENT_NOT_FOUND'', Some ''SALES_CLOSED'',
               Some ''SEATS_NOT_FOUND'', Some ''SYSTEM_ERROR''}"
    by (auto simp: createBooking_answer failure_def create_system_error_def split: option.splits)
qed

text \<open>
  At the sample data: two seats with one lock id, and the locked seat \<open>S1\<close> named twice.
\<close>

theorem createBooking_invalid_request_witness:
  "length (rq_seatIds request_one_lock_short) \<noteq> length (rq_lockIds request_one_lock_short)
   \<and> br_failureReason
       (fst (createBooking exact_arith uuids 2000 registry_U1 store_E1 request_one_lock_short))
       = Some ''INVALID_REQUEST''
   \<and> \<not> br_success
         (fst (createBooking exact_arith uuids 2000 registry_U1 store_E1 request_one_lock_short))
   \<and> snd (createBooking exact_arith uuids 2000 registry_U1 store_E1 request_one_lock_short)
       = (registry_U1, store_E1)
   \<and> \<not> distinct (rq_seatIds request_S1_twice)
   \<and> br_failureReason
       (fst (createBooking exact_arith uuids 2000 registry_U1 store_E1 request_S1_twice))
       \<noteq> Some ''INVALID_REQUEST''
   \<and> br_failureReason
       (fst (createBooking exact_arith uuids 2000 registry_U1 store_E1 request_S1_twice))
       \<in> {Some ''INVALID_LOCKS'', Some ''EVENT_NOT_FOUND'', Some ''SALES_CLOSED'',
          Some ''SEATS_NOT_FOUND'', Some ''SYSTEM_ERROR''}
   \<and> \<not> br_success
         (fst (createBooking exact_arith uuids 2000 registry_U1 store_E1 request_S1_twice))
   \<and> snd (createBooking exact_arith uuids 2000 registry_U1 store_E1 request_S1_twice)
       = (registry_U1, store_E1)"
proof -
  have short: "length (rq_seatIds request_one_lock_short) \<noteq> length (rq_lockIds request_one_lock_short)"
    by (simp add: request_one_lock_short_def)
  have twice: "\<not> distinct (rq_seatIds request_S1_twice)"
    "length (rq_seatIds request_S1_twice) = length (rq_lockIds request_S1_twice)"
    by (simp_all add: request_S1_twice_def)
  from createBooking_invalid_request
         [where A = exact_arith and newId = uuids and now = 2000 and d = registry_U1
            and st = store_E1 and request = request_one_lock_short]
       createBooking_invalid_request
         [where A = exact_arith and newId = uuids and now = 2000 and d = registry_U1
            and st = store_E1 and request = request_S1_twice]
       short twice
  show ?thesis by blast
qed

text \<open>
  The claim as it stands fails for the empty and the duplicated seat list: the empty
  request for an unknown event is answered \<open>EVENT_NOT_FOUND\<close>, and the request that names
  the locked seat \<open>S1\<close> twice is answered \<open>SEATS_NOT_FOUND\<close>.
\<close>

theorem createBooking_empty_or_duplicate_counterexample:
  "rq_seatIds request_no_seats = []
   \<and> br_failureReason
       (fst (createBooking exact_arith uuids 2000 registry_U1 store_E1 request_no_seats))
       = Some ''EVENT_NOT_FOUND''
   \<and> \<not> distinct (rq_seatIds request_S1_twice)
   \<and> br_failureReason
       (fst (createBooking exact_arith uuids 2000 registry_U1 store_E1 request_S1_twice))
       = Some ''SEATS_NOT_FOUND''"
  using sample_locks_none sample_locks_S1_twice
  by (simp add: createBooking_answer create_system_error_def failure_def canPurchaseTickets_def
        findByIds_Seat_def List.map_filter_def request_no_seats_def request_S1_twice_def
        store_E1_def event_E1_def seat_S1_def seat_S2_def)

subsection \<open>C5: lock-then-commit\<close>



subsection \<open>C6: acquiring a lock\<close>



subsection \<open>C7: the status of a booking\<close>




subsection \<open>C8: reading the lock of a seat\<close>

text \<open>
  C8. \<open>isLocked\<close> answers true exactly when the table holds an item for the seat whose
  \<open>expiresAt\<close> is later than now, as long as the read succeeds; when the read fails it
  answers true.
\<close>

theorem isLocked_iff_live_item_fail_closed:
  "(\<not> failing d \<longrightarrow>
      (isLocked d now seatId \<longleftrightarrow> (\<exists>lock. items d seatId = Some lock \<and> lk_expiresAt lock > now)))
   \<and> (failing d \<longrightarrow> isLocked d now seatId)"
  by (auto simp: isLocked_def dynamo_get_def split: option.splits)

text \<open>
  At the sample data: the lock on \<open>S1\<close> is live at \<open>300999\<close> and not at \<open>301000\<close>; seat
  \<open>S3\<close> has no item; a failing registry answers true.
\<close>

theorem isLocked_iff_live_item_fail_closed_witness:
  "\<not> failing registry_U1 \<and> failing registry_down
   \<and> isLocked registry_U1 300999 ''S1''
   \<and> \<not> isLocked registry_U1 301000 ''S1''
   \<and> \<not> isLocked registry_U1 300999 ''S3''
   \<and> isLocked registry_down 300999 ''S1''"
  using isLocked_iff_live_item_fail_closed [of registry_U1 300999 "''S1''"]
        isLocked_iff_live_item_fail_closed [of registry_U1 301000 "''S1''"]
        isLocked_iff_live_item_fail_closed [of registry_U1 300999 "''S3''"]
        isLocked_iff_live_item_fail_closed [of registry_down 300999 "''S1''"]
  by (simp add: registry_U1_def registry_down_def lock_S1_def lock_S2_def)

subsection \<open>C9: the total price\<close>

text \<open>
  C9, as it holds: \<open>calculateTotalPrice\<close> is the sum, accumulated from \<open>0\<close> in the order
  of the seats with the number arithmetic of the runtime, of the products
  \<open>Number(base_price) * Number(price_modifier)\<close>, a missing base price counting as \<open>0\<close>
  and a missing price modifier as \<open>1\<close>. No step of it rounds: in an arithmetic whose
  operations are exact the result is the exact sum of the products.
\<close>

theorem total_price_is_unrounded_sum:
  "calculateTotalPrice A event seatList =
     foldl (js_plus A) (js_zero A)
       (map (\<lambda>seat. js_times A
                       (case ev_basePrice event of None \<Rightarrow> js_zero A | Some b \<Rightarrow> js_Number A b)
                       (case seat_priceModifier seat of None \<Rightarrow> js_one A
                        | Some m \<Rightarrow> js_Number A m))
            seatList)
   \<and> calculateTotalPrice exact_arith event seatList =
       (\<Sum>seat\<leftarrow>seatList.
           (case ev_basePrice event of None \<Rightarrow> 0 | Some b \<Rightarrow> b)
         * (case seat_priceModifier seat of None \<Rightarrow> 1 | Some m \<Rightarrow> m))"
proof
  show "calculateTotalPrice A event seatList =
     foldl (js_plus A) (js_zero A)
       (map (\<lambda>seat. js_times A
                       (case ev_basePrice event of None \<Rightarrow> js_zero A | Some b \<Rightarrow> js_Number A b)
                       (case seat_priceModifier seat of None \<Rightarrow> js_one A
                        | Some m \<Rightarrow> js_Number A m))
            seatList)"
    by (rule calculateTotalPrice_fold)
  have sum: "foldl (\<lambda>a b. a + b) z xs = z + sum_list xs" for z :: rat and xs
    by (induction xs arbitrary: z) (simp_all add: add.assoc)
  have "calculateTotalPrice exact_arith event seatList =
     foldl (\<lambda>a b. a + b) 0
       (map (\<lambda>seat. (case ev_basePrice event of None \<Rightarrow> 0 | Some b \<Rightarrow> b)
                   * (case seat_priceModifier seat of None \<Rightarrow> 1 | Some m \<Rightarrow> m))
            seatList)"
    by (simp add: calculateTotalPrice_fold exact_arith_def cong: option.case_cong)
  then show "calculateTotalPrice exact_arith event seatList =
       (\<Sum>seat\<leftarrow>seatList.
           (case ev_basePrice event of None \<Rightarrow> 0 | Some b \<Rightarrow> b)
         * (case seat_priceModifier seat of None \<Rightarrow> 1 | Some m \<Rightarrow> m))"
    by (simp add: sum)
qed

text \<open>
  The claim as it stands fails where the sum has more than two decimal places: at base
  price \<open>0.25\<close> and modifier \<open>0.5\<close>, where every operation on doubles is exact, the total
  is \<open>0.125\<close>; rounding to two places with ties to even gives \<open>0.12\<close>.
\<close>

theorem total_price_not_rounded_counterexample:
  "calculateTotalPrice exact_arith event_quarter [seat_half] = 1 / 8
   \<and> spec_total_price event_quarter [seat_half] = 12 / 100
   \<and> calculateTotalPrice exact_arith event_quarter [seat_half]
       \<noteq> spec_total_price event_quarter [seat_half]"
proof -
  have fl: "\<lfloor>25 / 2 :: rat\<rfloor> = 12"
    by (rule floor_unique) simp_all
  show ?thesis
    by (simp add: calculateTotalPrice_def calculateSeatPrice_def or_default_def exact_arith_def
          spec_total_price_def spec_bankers_round2_def event_quarter_def seat_half_def Let_def fl)
qed

subsection \<open>C10: the instant of expiry\<close>

text \<open>
  C10. When now equals the \<open>expiresAt\<close> of the item stored for a seat and the registry
  answers, \<open>isLocked\<close> reports the seat as not locked and \<open>acquireLock\<close> on it fails with
  the already-locked answer, leaving the table as it was.
\<close>

theorem unlocked_yet_not_acquirable_at_expiry:
  assumes "\<not> failing d" and "items d seatId = Some lock" and "lk_expiresAt lock = now"
  shows "\<not> isLocked d now seatId
       \<and> fst (acquireLock ttl uuid now d seatId eventId userId) =
           \<lparr>lr_success = False, lr_lockId = None, lr_expiresAt = None,
            lr_message = Some ''Seat is already locked by another user''\<rparr>
       \<and> snd (acquireLock ttl uuid now d seatId eventId userId) = d"
  using assms
  by (simp add: isLocked_def dynamo_get_def acquireLock_def dynamo_put_unless_live_def)

theorem unlocked_yet_not_acquirable_at_expiry_witness:
  "\<not> failing registry_U1 \<and> items registry_U1 ''S1'' = Some lock_S1
   \<and> lk_expiresAt lock_S1 = 301000
   \<and> \<not> isLocked registry_U1 301000 ''S1''
   \<and> \<not> lr_success (fst (acquireLock 300000 ''L9'' 301000 registry_U1 ''S1'' ''E1'' ''U2''))"
proof -
  have a: "\<not> failing registry_U1"
    by (simp add: registry_U1_def)
  have b: "items registry_U1 ''S1'' = Some lock_S1"
    by (simp add: registry_U1_def)
  have c: "lk_expiresAt lock_S1 = 301000"
    by (simp add: lock_S1_def)
  from unlocked_yet_not_acquirable_at_expiry [OF a b c, of 300000 "''L9''" "''E1''" "''U2''"]
  show ?thesis using a b c by simp
qed

end
